theory Spec2Isabelle
  imports Main "HOL-Library.Word" "HOL-Library.AList"
begin

section \<open>Shared data: URLs, requests, responses, transformer results\<close>

text \<open>
  A shallow embedding of the sharaq image-derivative proxy: the guardian
  (\<^verbatim>\<open>guardian.go\<close>, PUT and DELETE with the in-flight set), the dispatcher
  (\<^verbatim>\<open>dispatcher.go\<close>, GET with the whitelist), and the two storage backends
  (\<^verbatim>\<open>aws/backend.go\<close>, \<^verbatim>\<open>fs/backend.go\<close>).

  Errors are strings (the text of a Go \<^verbatim>\<open>error\<close>); a fallible call returns
  \<open>err + 'a\<close> or \<open>err option\<close> (\<open>None\<close> is Go's \<^verbatim>\<open>nil\<close>).
\<close>

type_synonym err = string

text \<open>A parsed \<^verbatim>\<open>*url.URL\<close>: the code reads \<^verbatim>\<open>u.String()\<close> and \<^verbatim>\<open>u.Path\<close> only.\<close>

record URL =
  url_String :: string
  url_Path :: string

text \<open>An \<^verbatim>\<open>*http.Request\<close>: its method and its form values.\<close>

record Request =
  Method :: string
  FormValue :: "string \<Rightarrow> string"

text \<open>
  What a handler writes to its \<^verbatim>\<open>http.ResponseWriter\<close>, in order:
  \<^verbatim>\<open>http.Error(w, msg, code)\<close>, \<^verbatim>\<open>w.Header().Add(k, v)\<close>, \<^verbatim>\<open>w.WriteHeader(code)\<close> and
  \<^verbatim>\<open>http.ServeFile(w, r, path)\<close>.
\<close>

datatype http_event =
  HttpError string nat
  | AddHeader string string
  | WriteHeader nat
  | ServeFile string

text \<open>The transformer's result: content, declared size and content type.\<close>

record Result =
  Content :: string
  Size :: int
  ContentType :: string

text \<open>
  A goroutine started with \<^verbatim>\<open>go\<close> and not joined by the function that starts it:
  the function returns the list of tasks it has spawned, and the task runs later.
\<close>

datatype 'k task =
  StoreTransformedContentTask URL
  | CacheSetTask 'k string
  | CleanStorageRootTask

text \<open>
  A call that may panic instead of returning: \<open>Panics\<close> is a run-time panic (here a nil
  pointer dereference), \<open>Returns v\<close> the value returned.
\<close>

datatype 'a outcome = Panics | Returns 'a

text \<open>An entry of the storage root: last-modified time (nanoseconds) and content.\<close>

record Entry =
  ModTime :: int
  Bytes :: string

section \<open>The collaborators outside the repository's sources\<close>

text \<open>
  Library and internal-package calls whose code is not part of the sources are
  parameters of the model. Each field is the answer the outside world gives to one
  call; the key type \<open>'k\<close> is the cache key.

  \<^item> \<open>MakeCacheKey\<close>: \<^verbatim>\<open>urlcache.MakeCacheKey(v ...string)\<close>;
  \<^item> \<open>Parse\<close>: \<^verbatim>\<open>url.Parse\<close>;
  \<^item> \<open>Sum64\<close>: \<^verbatim>\<open>crc64.New(crc64Table)\<close>, \<^verbatim>\<open>io.WriteString\<close>, \<^verbatim>\<open>Sum64()\<close> of a string;
  \<^item> \<open>Transform\<close>: the transformer, on a rule and a source URL;
  \<^item> \<open>PutReader\<close>, \<open>Del\<close>: the error, if any, of the S3 bucket's calls on a path;
  \<^item> \<open>Elapsed\<close>: the formatted elapsed time of a handler;
  \<^item> \<open>GetTargetURL\<close>, \<open>GetPresetFromRequest\<close>: the \<^verbatim>\<open>util\<close> request readers;
  \<^item> \<open>Head\<close>: \<^verbatim>\<open>http.Head\<close>, an error or the status code;
  \<^item> \<open>HashedPath\<close>, \<open>Join\<close>, \<open>Dir\<close>: \<^verbatim>\<open>util.HashedPath\<close>, \<^verbatim>\<open>filepath.Join\<close>, \<^verbatim>\<open>filepath.Dir\<close>;
  \<^item> \<open>MkdirAll\<close>, \<open>OpenFile\<close>, \<open>Copy\<close>, \<open>Remove\<close>, \<open>Stat\<close>: the error, if any, that
    the operating system reports for the call on a path (beyond the path being absent);
    \<open>Stat\<close> answers for \<^verbatim>\<open>os.Stat\<close> and for the \<^verbatim>\<open>lstat\<close> of \<^verbatim>\<open>filepath.Walk\<close>;
  \<^item> \<open>Now\<close>: the clock, in nanoseconds.
\<close>

record 'k Env =
  MakeCacheKey :: "string list \<Rightarrow> 'k"
  Parse :: "string \<Rightarrow> err + URL"
  Sum64 :: "string \<Rightarrow> 64 word"
  Transform :: "string \<Rightarrow> string \<Rightarrow> err + Result"
  PutReader :: "string \<Rightarrow> Result \<Rightarrow> err option"
  Del :: "string \<Rightarrow> err option"
  Elapsed :: string
  GetTargetURL :: "Request \<Rightarrow> err + URL"
  GetPresetFromRequest :: "Request \<Rightarrow> err + string"
  Head :: "string \<Rightarrow> err + nat"
  HashedPath :: "string \<Rightarrow> string \<Rightarrow> string"
  Join :: "string \<Rightarrow> string \<Rightarrow> string"
  Dir :: "string \<Rightarrow> string"
  MkdirAll :: "string \<Rightarrow> err option"
  OpenFile :: "string \<Rightarrow> err option"
  Copy :: "string \<Rightarrow> err option"
  Remove :: "string \<Rightarrow> err option"
  Stat :: "string \<Rightarrow> err option"
  Now :: int

text \<open>
  Modelled from the spec: the logical cache (\<^verbatim>\<open>internal/urlcache\<close>, not in the sources)
  with its three operations \<open>lookup(key) -> address|absent\<close>, \<open>set(key, address)\<close>,
  \<open>delete(key)\<close>, as a map. The callers read an absent key as the empty string.
\<close>

definition Lookup :: "('k \<rightharpoonup> string) \<Rightarrow> 'k \<Rightarrow> string" where
  "Lookup c k = (case c k of None \<Rightarrow> [] | Some v \<Rightarrow> v)"

definition CacheSet :: "('k \<rightharpoonup> string) \<Rightarrow> 'k \<Rightarrow> string \<Rightarrow> ('k \<rightharpoonup> string)" where
  "CacheSet c k v = c(k \<mapsto> v)"

definition CacheDelete :: "('k \<rightharpoonup> string) \<Rightarrow> 'k \<Rightarrow> ('k \<rightharpoonup> string)" where
  "CacheDelete c k = c(k := None)"

text \<open>\<^verbatim>\<open>fmt.Fprintf(buf, "Err: %s\n", err)\<close> for every error read from the channel.\<close>

definition err_line :: "err \<Rightarrow> string" where
  "err_line e = ''Err: '' @ e @ [CHR 0x0A]"

definition err_lines :: "err list \<Rightarrow> string" where
  "err_lines errCh = concat (map err_line errCh)"

section \<open>The guardian: in-flight set, PUT and DELETE\<close>

text \<open>
  The \<^verbatim>\<open>Guardian\<close> struct: the bucket's objects by path, the cache, and the
  in-flight set \<^verbatim>\<open>processing map[uint64]bool\<close>. The mutex makes each of
  \<open>MarkProcessing\<close> and \<open>UnmarkProcessing\<close> one atomic step, which is how they
  are modelled.
\<close>

record 'k Guardian =
  Bucket :: "string \<rightharpoonup> Result"
  Cache :: "'k \<rightharpoonup> string"
  processing :: "64 word \<rightharpoonup> bool"

text \<open>
  The preset table of \<^verbatim>\<open>guardian.go\<close>. Go iterates a map in no fixed order and the
  branches run concurrently; the list order stands for the order in which they finish.
\<close>

definition presets :: "(string \<times> string) list" where
  "presets =
     [(''pc-thumb'', ''360x216''), (''ticket-thumb'', ''170x230''),
      (''wando-thumb'', ''596x450''), (''email-thumb'', ''596x450'')]"

definition MarkProcessing :: "'k Env \<Rightarrow> 'k Guardian \<Rightarrow> URL \<Rightarrow> bool \<times> 'k Guardian" where
  "MarkProcessing env g u =
     (let k = Sum64 env (url_String u)
      in (True, g\<lparr>processing := (processing g)(k \<mapsto> True)\<rparr>))"

definition UnmarkProcessing :: "'k Env \<Rightarrow> 'k Guardian \<Rightarrow> URL \<Rightarrow> 'k Guardian" where
  "UnmarkProcessing env g u =
     (let k = Sum64 env (url_String u)
      in g\<lparr>processing := (processing g)(k := None)\<rparr>)"

text \<open>One branch per preset: transform, then PUT to the bucket; errors go to \<open>errCh\<close>.\<close>

fun transformAllAndStore_loop ::
  "'k Env \<Rightarrow> URL \<Rightarrow> (string \<times> string) list \<Rightarrow> err list \<Rightarrow> 'k Guardian \<Rightarrow> err list \<times> 'k Guardian" where
  "transformAllAndStore_loop env u [] errCh g = (errCh, g)"
| "transformAllAndStore_loop env u ((preset, rule) # rest) errCh g =
     (case Transform env rule (url_String u) of
        Inl e \<Rightarrow> transformAllAndStore_loop env u rest (errCh @ [e]) g
      | Inr res \<Rightarrow>
          (let path = ''/'' @ preset @ url_Path u in
           case PutReader env path res of
             Some e \<Rightarrow> transformAllAndStore_loop env u rest (errCh @ [e]) g
           | None \<Rightarrow>
               transformAllAndStore_loop env u rest errCh
                 (g\<lparr>Bucket := (Bucket g)(path \<mapsto> res)\<rparr>)))"

definition transformAllAndStore :: "'k Env \<Rightarrow> 'k Guardian \<Rightarrow> URL \<Rightarrow> err list \<times> 'k Guardian" where
  "transformAllAndStore env g u = transformAllAndStore_loop env u presets [] g"

text \<open>
  \<open>HandleStore\<close>: the deferred \<open>UnmarkProcessing\<close> runs at both returns that
  follow the \<^verbatim>\<open>defer\<close> statement.
\<close>

definition HandleStore :: "'k Env \<Rightarrow> 'k Guardian \<Rightarrow> Request \<Rightarrow> http_event list \<times> 'k Guardian" where
  "HandleStore env g r =
     (let rawValue = FormValue r ''url'' in
      if rawValue = [] then ([HttpError ''Bad url'' 500], g)
      else case Parse env rawValue of
        Inl e \<Rightarrow> ([HttpError ''Bad url'' 500], g)
      | Inr u \<Rightarrow>
          (case MarkProcessing env g u of
             (ok, g1) \<Rightarrow>
               if \<not> ok then ([HttpError ''url is being processed'' 500], g1)
               else
                 (case transformAllAndStore env g1 u of
                    (errCh, g2) \<Rightarrow>
                      (let buf = err_lines errCh in
                       if length buf > 0
                       then ([HttpError buf 500], UnmarkProcessing env g2 u)
                       else ([AddHeader ''X-Peatix-Elapsed-Time'' (Elapsed env)],
                             UnmarkProcessing env g2 u)))))"

text \<open>
  The DELETE fan-out: delete the object, report an error if any, and delete the cache
  entry under \<^verbatim>\<open>MakeCacheKey(preset, u.String())\<close> whatever the outcome. The branches
  assign the handler's own variable \<^verbatim>\<open>err\<close>, which they share; here each branch runs to
  its end before the next starts, so that a branch reads the error it has just assigned.
  What the in-flight set and the cache hold afterwards does not depend on it.
\<close>

fun HandleDelete_loop ::
  "'k Env \<Rightarrow> URL \<Rightarrow> (string \<times> string) list \<Rightarrow> err list \<Rightarrow> 'k Guardian \<Rightarrow> err list \<times> 'k Guardian" where
  "HandleDelete_loop env u [] errCh g = (errCh, g)"
| "HandleDelete_loop env u ((preset, rule) # rest) errCh g =
     (let path = ''/'' @ preset @ url_Path u;
          key = MakeCacheKey env [preset, url_String u]
      in case Del env path of
           Some e \<Rightarrow>
             HandleDelete_loop env u rest (errCh @ [e])
               (g\<lparr>Cache := CacheDelete (Cache g) key\<rparr>)
         | None \<Rightarrow>
             HandleDelete_loop env u rest errCh
               (g\<lparr>Bucket := (Bucket g)(path := None), Cache := CacheDelete (Cache g) key\<rparr>))"

definition HandleDelete :: "'k Env \<Rightarrow> 'k Guardian \<Rightarrow> Request \<Rightarrow> http_event list \<times> 'k Guardian" where
  "HandleDelete env g r =
     (let rawValue = FormValue r ''url'' in
      if rawValue = [] then ([HttpError ''Bad url'' 500], g)
      else case Parse env rawValue of
        Inl e \<Rightarrow> ([HttpError ''Bad url'' 500], g)
      | Inr u \<Rightarrow>
          (case MarkProcessing env g u of
             (ok, g1) \<Rightarrow>
               if \<not> ok then ([HttpError ''url is being processed'' 500], g1)
               else
                 (case HandleDelete_loop env u presets [] g1 of
                    (errCh, g2) \<Rightarrow>
                      (let buf = err_lines errCh in
                       if length buf > 0
                       then ([HttpError buf 500], UnmarkProcessing env g2 u)
                       else ([AddHeader ''X-Peatix-Elapsed-Time'' (Elapsed env)],
                             UnmarkProcessing env g2 u)))))"

section \<open>The dispatcher: GET and the whitelist\<close>

text \<open>
  The whitelist is the list of compiled patterns, each kept as its source text;
  \<open>MatchString pat s\<close> is \<^verbatim>\<open>pat.MatchString(s)\<close> of the regexp library, a
  parameter. The loop stops at the first match (\<^verbatim>\<open>break\<close>).
\<close>

record Dispatcher =
  whitelist :: "string list"

fun whitelist_loop :: "(string \<Rightarrow> string \<Rightarrow> bool) \<Rightarrow> string list \<Rightarrow> string \<Rightarrow> bool \<Rightarrow> bool" where
  "whitelist_loop MatchString [] rawValue allowed = allowed"
| "whitelist_loop MatchString (pat # pats) rawValue allowed =
     (if MatchString pat rawValue then True
      else whitelist_loop MatchString pats rawValue allowed)"

text \<open>
  \<open>HandleFetch\<close> either answers itself (\<open>Inl\<close>, the events written) or hands the
  request to the backend's \<open>Serve\<close> (\<open>Inr\<close>, whatever \<open>Serve\<close> returns).
\<close>

definition HandleFetch ::
  "(string \<Rightarrow> string \<Rightarrow> bool) \<Rightarrow> Dispatcher \<Rightarrow> (Request \<Rightarrow> 'a) \<Rightarrow> Request \<Rightarrow> http_event list + 'a" where
  "HandleFetch MatchString d Serve r =
     (let rawValue = FormValue r ''url'' in
      if rawValue = [] then Inl [HttpError ''Bad url'' 500]
      else
        (let allowed =
               (if length (whitelist d) = 0 then True
                else whitelist_loop MatchString (whitelist d) rawValue False)
         in if \<not> allowed then Inl [HttpError ''Specified url not allowed'' 403]
            else Inr (Serve r)))"

section \<open>The object-store backend (aws/backend.go)\<close>

text \<open>
  The \<^verbatim>\<open>S3Backend\<close> struct: bucket name, the bucket's objects by path, the cache and
  the preset table (a Go map: keys are unique, the list order stands for the order in
  which the concurrent branches finish).
  \<open>bbpool\<close> is the pointer to the buffer pool, \<open>None\<close> for \<^verbatim>\<open>nil\<close>: \<^verbatim>\<open>NewBackend\<close> sets
  every other field of the struct and leaves this one \<^verbatim>\<open>nil\<close>. \<^verbatim>\<open>s.bbpool.Get()\<close> on a
  \<^verbatim>\<open>nil\<close> pool panics; a pool that is set hands out an empty buffer, so that \<open>buf\<close> holds
  the error lines and nothing else.
\<close>

record 'k S3Backend =
  bucketName :: string
  s3_bucket :: "string \<rightharpoonup> Result"
  s3_cache :: "'k \<rightharpoonup> string"
  s3_presets :: "(string \<times> string) list"
  bbpool :: "unit option"

text \<open>
  \<open>Serve\<close> returns what it wrote, the goroutines it started and the backend. The
  \<^verbatim>\<open>goto FALLBACK\<close> of a failed HEAD request jumps over the \<^verbatim>\<open>go\<close> statement that
  starts \<open>StoreTransformedContent\<close>.
\<close>

definition S3Backend_Serve ::
  "'k Env \<Rightarrow> 'k S3Backend \<Rightarrow> Request \<Rightarrow> http_event list \<times> 'k task list \<times> 'k S3Backend" where
  "S3Backend_Serve env s r =
     (case GetTargetURL env r of
        Inl e \<Rightarrow> ([HttpError ''Bad url'' 500], [], s)
      | Inr u \<Rightarrow>
          (case GetPresetFromRequest env r of
             Inl e \<Rightarrow> ([HttpError ''Bad preset'' 500], [], s)
           | Inr preset \<Rightarrow>
               (let cacheKey = MakeCacheKey env [''s3'', preset, url_String u];
                    cachedURL = Lookup (s3_cache s) cacheKey
                in if cachedURL \<noteq> []
                   then ([AddHeader ''Location'' cachedURL, WriteHeader 301], [], s)
                   else
                     (let specificURL =
                            ''http://'' @ bucketName s @ ''.s3.amazonaws.com/'' @ preset @ url_Path u
                      in case Head env specificURL of
                           Inl e \<Rightarrow>
                             ([AddHeader ''Location'' (url_String u), WriteHeader 302], [], s)
                         | Inr StatusCode \<Rightarrow>
                             if StatusCode = 200
                             then ([AddHeader ''Location'' specificURL, WriteHeader 301],
                                   [CacheSetTask cacheKey specificURL], s)
                             else ([AddHeader ''Location'' (url_String u), WriteHeader 302],
                                   [StoreTransformedContentTask u], s)))))"

fun S3Backend_StoreTransformedContent_loop ::
  "'k Env \<Rightarrow> URL \<Rightarrow> (string \<times> string) list \<Rightarrow> err list \<Rightarrow> 'k S3Backend \<Rightarrow> err list \<times> 'k S3Backend" where
  "S3Backend_StoreTransformedContent_loop env u [] errCh s = (errCh, s)"
| "S3Backend_StoreTransformedContent_loop env u ((preset, rule) # rest) errCh s =
     (case Transform env rule (url_String u) of
        Inl e \<Rightarrow> S3Backend_StoreTransformedContent_loop env u rest (errCh @ [e]) s
      | Inr res \<Rightarrow>
          (let path = ''/'' @ preset @ url_Path u in
           case PutReader env path res of
             Some e \<Rightarrow> S3Backend_StoreTransformedContent_loop env u rest (errCh @ [e]) s
           | None \<Rightarrow>
               S3Backend_StoreTransformedContent_loop env u rest errCh
                 (s\<lparr>s3_bucket := (s3_bucket s)(path \<mapsto> res)\<rparr>)))"

text \<open>
  After \<^verbatim>\<open>wg.Wait()\<close> the function takes a buffer from the pool: with a \<^verbatim>\<open>nil\<close> pool it
  panics there, when every branch has run.
\<close>

definition S3Backend_StoreTransformedContent ::
  "'k Env \<Rightarrow> 'k S3Backend \<Rightarrow> URL \<Rightarrow> err option outcome \<times> 'k S3Backend" where
  "S3Backend_StoreTransformedContent env s u =
     (case S3Backend_StoreTransformedContent_loop env u (s3_presets s) [] s of
        (errCh, s') \<Rightarrow>
          (case bbpool s' of
             None \<Rightarrow> (Panics, s')
           | Some pool \<Rightarrow>
               (let buf = err_lines errCh in
                if length buf > 0 then (Returns (Some (''error while transforming: '' @ buf)), s')
                else (Returns None, s'))))"

text \<open>
  \<open>Delete\<close>: the cache entry is deleted whatever \<^verbatim>\<open>Del\<close> returned, under the key
  \<^verbatim>\<open>MakeCacheKey(preset, u.String())\<close>.
\<close>

fun S3Backend_Delete_loop ::
  "'k Env \<Rightarrow> URL \<Rightarrow> (string \<times> string) list \<Rightarrow> err list \<Rightarrow> 'k S3Backend \<Rightarrow> err list \<times> 'k S3Backend" where
  "S3Backend_Delete_loop env u [] errCh s = (errCh, s)"
| "S3Backend_Delete_loop env u ((preset, rule) # rest) errCh s =
     (let path = ''/'' @ preset @ url_Path u;
          key = MakeCacheKey env [preset, url_String u]
      in case Del env path of
           Some e \<Rightarrow>
             S3Backend_Delete_loop env u rest (errCh @ [e])
               (s\<lparr>s3_cache := CacheDelete (s3_cache s) key\<rparr>)
         | None \<Rightarrow>
             S3Backend_Delete_loop env u rest errCh
               (s\<lparr>s3_bucket := (s3_bucket s)(path := None),
                  s3_cache := CacheDelete (s3_cache s) key\<rparr>))"

definition S3Backend_Delete ::
  "'k Env \<Rightarrow> 'k S3Backend \<Rightarrow> URL \<Rightarrow> err option outcome \<times> 'k S3Backend" where
  "S3Backend_Delete env s u =
     (case S3Backend_Delete_loop env u (s3_presets s) [] s of
        (errCh, s') \<Rightarrow>
          (case bbpool s' of
             None \<Rightarrow> (Panics, s')
           | Some pool \<Rightarrow>
               (let buf = err_lines errCh in
                if length buf > 0 then (Returns (Some (''error while deleting: '' @ buf)), s')
                else (Returns None, s'))))"

text \<open>Running a goroutine that \<open>Serve\<close> started; it returns the backend it leaves.\<close>

fun S3Backend_run :: "'k Env \<Rightarrow> 'k S3Backend \<Rightarrow> 'k task \<Rightarrow> 'k S3Backend" where
  "S3Backend_run env s (StoreTransformedContentTask u) = snd (S3Backend_StoreTransformedContent env s u)"
| "S3Backend_run env s (CacheSetTask k v) = s\<lparr>s3_cache := CacheSet (s3_cache s) k v\<rparr>"
| "S3Backend_run env s CleanStorageRootTask = s"

section \<open>The filesystem backend (fs/backend.go)\<close>

text \<open>
  The \<^verbatim>\<open>Backend\<close> struct with the storage root's entries: \<open>disk\<close> lists every path
  under \<open>root\<close> with its entry, one pair per path. A system call fails when the path is
  absent where it must exist, or when the outside world says so (\<open>Env\<close>).
  \<open>imageTTL\<close> is a \<^verbatim>\<open>time.Duration\<close>: a signed 64-bit count of nanoseconds, read with
  \<open>sint\<close>.
\<close>

record 'k Backend =
  root :: string
  imageTTL :: "64 word"
  fs_presets :: "(string \<times> string) list"
  fs_cache :: "'k \<rightharpoonup> string"
  disk :: "(string \<times> Entry) list"




text \<open>\<^verbatim>\<open>_, err := os.Stat(path); err == nil\<close>.\<close>

definition os_Stat :: "'k Env \<Rightarrow> (string \<times> Entry) list \<Rightarrow> string \<Rightarrow> bool" where
  "os_Stat env d path = (map_of d path \<noteq> None \<and> Stat env path = None)"

definition os_Remove :: "'k Env \<Rightarrow> string \<Rightarrow> (string \<times> Entry) list \<Rightarrow> err option \<times> (string \<times> Entry) list" where
  "os_Remove env path d =
     (if map_of d path = None then (Some (''remove '' @ path @ '': no such file or directory''), d)
      else case Remove env path of
             Some e \<Rightarrow> (Some e, d)
           | None \<Rightarrow> (None, AList.delete path d))"

definition os_MkdirAll :: "'k Env \<Rightarrow> string \<Rightarrow> (string \<times> Entry) list \<Rightarrow> err option \<times> (string \<times> Entry) list" where
  "os_MkdirAll env dir d =
     (case MkdirAll env dir of
        Some e \<Rightarrow> (Some e, d)
      | None \<Rightarrow>
          (None, if map_of d dir = None
                 then AList.update dir \<lparr>ModTime = Now env, Bytes = []\<rparr> d else d))"

text \<open>\<^verbatim>\<open>os.OpenFile(path, os.O_CREATE|os.O_WRONLY, 0644)\<close>: creates an absent file, empty.\<close>

definition os_OpenFile :: "'k Env \<Rightarrow> string \<Rightarrow> (string \<times> Entry) list \<Rightarrow> err option \<times> (string \<times> Entry) list" where
  "os_OpenFile env path d =
     (case OpenFile env path of
        Some e \<Rightarrow> (Some e, d)
      | None \<Rightarrow>
          (None, if map_of d path = None
                 then AList.update path \<lparr>ModTime = Now env, Bytes = []\<rparr> d else d))"

text \<open>
  \<^verbatim>\<open>io.Copy(fh, buf)\<close> on a file opened without \<^verbatim>\<open>O_TRUNC\<close>: the new bytes replace the
  first bytes of the file and what lies beyond them stays.
\<close>

definition io_Copy :: "'k Env \<Rightarrow> string \<Rightarrow> string \<Rightarrow> (string \<times> Entry) list \<Rightarrow> err option \<times> (string \<times> Entry) list" where
  "io_Copy env path buf d =
     (case Copy env path of
        Some e \<Rightarrow> (Some e, d)
      | None \<Rightarrow>
          (let old = (case map_of d path of None \<Rightarrow> [] | Some en \<Rightarrow> Bytes en)
           in (None, AList.update path \<lparr>ModTime = Now env, Bytes = buf @ drop (length buf) old\<rparr> d)))"

definition EncodeFilename :: "'k Env \<Rightarrow> 'k Backend \<Rightarrow> string \<Rightarrow> string \<Rightarrow> string" where
  "EncodeFilename env f preset urlstr = Join env (root f) (HashedPath env preset urlstr)"

text \<open>
  \<open>Serve\<close>: after the cache miss, a successful \<^verbatim>\<open>os.Stat\<close> fills the cache and serves
  the file; the \<^verbatim>\<open>if\<close> block has no \<^verbatim>\<open>return\<close>, so the lines after it run in both cases.
\<close>

definition Backend_Serve ::
  "'k Env \<Rightarrow> 'k Backend \<Rightarrow> Request \<Rightarrow> http_event list \<times> 'k task list \<times> 'k Backend" where
  "Backend_Serve env f r =
     (case GetTargetURL env r of
        Inl e \<Rightarrow> ([HttpError ''Bad url'' 500], [], f)
      | Inr u \<Rightarrow>
          (case GetPresetFromRequest env r of
             Inl e \<Rightarrow> ([HttpError ''Bad preset'' 500], [], f)
           | Inr preset \<Rightarrow>
               (let cacheKey = MakeCacheKey env [''fs'', preset, url_String u];
                    cachedFile = Lookup (fs_cache f) cacheKey
                in if cachedFile \<noteq> [] then ([ServeFile cachedFile], [], f)
                   else
                     (let path = EncodeFilename env f preset (url_String u);
                          hit = os_Stat env (disk f) path;
                          w1 = (if hit then [ServeFile path] else []);
                          f1 = (if hit then f\<lparr>fs_cache := CacheSet (fs_cache f) cacheKey path\<rparr> else f)
                      in (w1 @ [AddHeader ''Location'' (url_String u), WriteHeader 302],
                          [StoreTransformedContentTask u], f1)))))"

text \<open>One branch of \<open>StoreTransformedContent\<close>: the function handed to \<^verbatim>\<open>grp.Go\<close>.\<close>

definition Backend_StoreTransformedContent_branch ::
  "'k Env \<Rightarrow> URL \<Rightarrow> string \<Rightarrow> string \<Rightarrow> 'k Backend \<Rightarrow> err option \<times> 'k Backend" where
  "Backend_StoreTransformedContent_branch env u preset rule f =
     (case Transform env rule (url_String u) of
        Inl e \<Rightarrow> (Some (''failed to transform: '' @ e), f)
      | Inr res \<Rightarrow>
          (let path = EncodeFilename env f preset (url_String u);
               dir = Dir env path
           in case (if os_Stat env (disk f) dir then (None, disk f)
                    else os_MkdirAll env dir (disk f)) of
                (Some e, d1) \<Rightarrow>
                  (Some (''failed to create directory '' @ dir @ '': '' @ e), f\<lparr>disk := d1\<rparr>)
              | (None, d1) \<Rightarrow>
                  (case os_OpenFile env path d1 of
                     (Some e, d2) \<Rightarrow>
                       (Some (''failed to open file '' @ path @ '': '' @ e), f\<lparr>disk := d2\<rparr>)
                   | (None, d2) \<Rightarrow>
                       (case io_Copy env path (Content res) d2 of
                          (Some e, d3) \<Rightarrow>
                            (Some (''failed to write content to '' @ path @ '': '' @ e),
                             f\<lparr>disk := d3\<rparr>)
                        | (None, d3) \<Rightarrow> (None, f\<lparr>disk := d3\<rparr>)))))"

text \<open>
  The \<^verbatim>\<open>errgroup\<close>: every function given to \<^verbatim>\<open>Go\<close> runs; the group keeps the first
  error reported to it (\<^verbatim>\<open>errOnce\<close>) and \<^verbatim>\<open>Wait\<close> returns that one. The group's context is
  cancelled then, but no branch reads it.
\<close>

definition errOnce :: "err option \<Rightarrow> err option \<Rightarrow> err option" where
  "errOnce kept e = (case kept of None \<Rightarrow> e | Some k \<Rightarrow> Some k)"

fun Backend_StoreTransformedContent_loop ::
  "'k Env \<Rightarrow> URL \<Rightarrow> (string \<times> string) list \<Rightarrow> err option \<Rightarrow> 'k Backend \<Rightarrow> err option \<times> 'k Backend" where
  "Backend_StoreTransformedContent_loop env u [] kept f = (kept, f)"
| "Backend_StoreTransformedContent_loop env u ((preset, rule) # rest) kept f =
     (case Backend_StoreTransformedContent_branch env u preset rule f of
        (e, f') \<Rightarrow> Backend_StoreTransformedContent_loop env u rest (errOnce kept e) f')"

text \<open>
  \<open>StoreTransformedContent\<close> starts \<open>CleanStorageRoot\<close> as a goroutine of its own
  (\<^verbatim>\<open>go f.CleanStorageRoot()\<close>) and returns \<^verbatim>\<open>grp.Wait()\<close>.
\<close>

definition Backend_StoreTransformedContent ::
  "'k Env \<Rightarrow> 'k Backend \<Rightarrow> URL \<Rightarrow> err option \<times> 'k task list \<times> 'k Backend" where
  "Backend_StoreTransformedContent env f u =
     (case Backend_StoreTransformedContent_loop env u (fs_presets f) None f of
        (e, f') \<Rightarrow> (e, [CleanStorageRootTask], f'))"

text \<open>One branch of \<open>Delete\<close>: a failed \<^verbatim>\<open>os.Remove\<close> returns before the cache is touched.\<close>

definition Backend_Delete_branch ::
  "'k Env \<Rightarrow> URL \<Rightarrow> string \<Rightarrow> 'k Backend \<Rightarrow> err option \<times> 'k Backend" where
  "Backend_Delete_branch env u preset f =
     (let path = EncodeFilename env f preset (url_String u) in
      case os_Remove env path (disk f) of
        (Some e, d) \<Rightarrow> (Some (''failed to remove path '' @ path @ '': '' @ e), f)
      | (None, d) \<Rightarrow>
          (None, f\<lparr>disk := d,
                   fs_cache := CacheDelete (fs_cache f)
                                 (MakeCacheKey env [''fs'', preset, url_String u])\<rparr>))"

fun Backend_Delete_loop ::
  "'k Env \<Rightarrow> URL \<Rightarrow> (string \<times> string) list \<Rightarrow> err option \<Rightarrow> 'k Backend \<Rightarrow> err option \<times> 'k Backend" where
  "Backend_Delete_loop env u [] kept f = (kept, f)"
| "Backend_Delete_loop env u ((preset, rule) # rest) kept f =
     (case Backend_Delete_branch env u preset f of
        (e, f') \<Rightarrow> Backend_Delete_loop env u rest (errOnce kept e) f')"

definition Backend_Delete :: "'k Env \<Rightarrow> 'k Backend \<Rightarrow> URL \<Rightarrow> err option \<times> 'k Backend" where
  "Backend_Delete env f u =
     (case Backend_Delete_loop env u (fs_presets f) None f of
        (None, f') \<Rightarrow> (None, f')
      | (Some e, f') \<Rightarrow> (Some (''deleting from file system: '' @ e), f'))"





section \<open>What one branch reports\<close>

text \<open>
  The error, if any, that the branch of one preset sends to \<open>errCh\<close> in the
  object-store backend: the transformer's, or else the PUT's. It does not depend on
  the other branches.
\<close>

definition S3Backend_branch_error :: "'k Env \<Rightarrow> URL \<Rightarrow> string \<times> string \<Rightarrow> err option" where
  "S3Backend_branch_error env u pr =
     (case Transform env (snd pr) (url_String u) of
        Inl e \<Rightarrow> Some e
      | Inr res \<Rightarrow> PutReader env (''/'' @ fst pr @ url_Path u) res)"

text \<open>
  The errors of all the branches of the filesystem backend's
  \<open>StoreTransformedContent\<close>, in the order in which the branches finish: what the
  \<^verbatim>\<open>errgroup\<close> is told, before it keeps the first.
\<close>

fun Backend_branch_errors ::
  "'k Env \<Rightarrow> URL \<Rightarrow> (string \<times> string) list \<Rightarrow> 'k Backend \<Rightarrow> err list" where
  "Backend_branch_errors env u [] f = []"
| "Backend_branch_errors env u ((preset, rule) # rest) f =
     (case Backend_StoreTransformedContent_branch env u preset rule f of
        (None, f') \<Rightarrow> Backend_branch_errors env u rest f'
      | (Some e, f') \<Rightarrow> e # Backend_branch_errors env u rest f')"

section \<open>A sample world for the closed examples\<close>

text \<open>
  Modelled from the spec: \<^verbatim>\<open>urlcache.MakeCacheKey\<close> (\<^verbatim>\<open>internal/urlcache\<close> is not in the
  sources). The spec's codec is deterministic and gives distinct keys to distinct
  inputs; the sample key is the list of the arguments itself.
\<close>

definition MakeCacheKey0 :: "string list \<Rightarrow> string list" where
  "MakeCacheKey0 v = v"

definition u0 :: URL where
  "u0 = \<lparr>url_String = ''http://x/a.jpg'', url_Path = ''/a.jpg''\<rparr>"

text \<open>The request \<^verbatim>\<open>?url=http://x/a.jpg&preset=thumb\<close>.\<close>

definition r0 :: Request where
  "r0 = \<lparr>Method = ''GET'',
         FormValue = (\<lambda>k. if k = ''url'' then ''http://x/a.jpg''
                         else if k = ''preset'' then ''thumb'' else [])\<rparr>"

text \<open>\<^verbatim>\<open>filepath.Dir\<close> on the sample paths: everything before the last slash.\<close>

definition Dir0 :: "string \<Rightarrow> string" where
  "Dir0 p = rev (tl (dropWhile (\<lambda>c. c \<noteq> CHR ''/'') (rev p)))"

text \<open>
  A world in which every outside call succeeds, the HEAD probe answers 404 and the
  transformer returns the rule and the URL as content.
\<close>

definition env0 :: "(string list) Env" where
  "env0 =
     \<lparr>MakeCacheKey = MakeCacheKey0,
      Parse = (\<lambda>s. if s = ''http://x/a.jpg'' then Inr u0 else Inl ''parse error''),
      Sum64 = (\<lambda>s. of_nat (length s)),
      Transform = (\<lambda>rule urlstr.
         Inr \<lparr>Content = rule @ '' '' @ urlstr, Size = int (length (rule @ '' '' @ urlstr)),
              ContentType = ''image/jpeg''\<rparr>),
      PutReader = (\<lambda>path res. None),
      Del = (\<lambda>path. None),
      Elapsed = ''0.01'',
      GetTargetURL = (\<lambda>r. if FormValue r ''url'' = ''http://x/a.jpg'' then Inr u0 else Inl ''bad url''),
      GetPresetFromRequest =
        (\<lambda>r. if FormValue r ''preset'' = [] then Inl ''no preset'' else Inr (FormValue r ''preset'')),
      Head = (\<lambda>url. Inr 404),
      HashedPath = (\<lambda>preset urlstr. preset @ ''/a.jpg''),
      Join = (\<lambda>a b. a @ ''/'' @ b),
      Dir = Dir0,
      MkdirAll = (\<lambda>path. None),
      OpenFile = (\<lambda>path. None),
      Copy = (\<lambda>path. None),
      Remove = (\<lambda>path. None),
      Stat = (\<lambda>path. None),
      Now = 1000\<rparr>"

text \<open>An object-store backend with one preset, an empty cache and its buffer pool set.\<close>

definition s0 :: "(string list) S3Backend" where
  "s0 = \<lparr>bucketName = ''bkt'', s3_bucket = Map.empty, s3_cache = Map.empty,
         s3_presets = [(''thumb'', ''100x100'')], bbpool = Some ()\<rparr>"

text \<open>A filesystem backend with two presets, an empty cache and an empty root.\<close>

definition f0 :: "(string list) Backend" where
  "f0 = \<lparr>root = ''/data'', imageTTL = 100,
         fs_presets = [(''thumb'', ''100x100''), (''large'', ''800x600'')],
         fs_cache = Map.empty, disk = []\<rparr>"

text \<open>A guardian with one other URL in flight.\<close>

definition g0 :: "(string list) Guardian" where
  "g0 = \<lparr>Bucket = Map.empty, Cache = Map.empty, processing = [7 \<mapsto> True]\<rparr>"

text \<open>A sample matcher: the pattern matches the strings that begin with it.\<close>

definition prefix_match :: "string \<Rightarrow> string \<Rightarrow> bool" where
  "prefix_match pat s = (take (length pat) s = pat)"


section \<open>Lemmas about the loops\<close>

lemma transformAllAndStore_loop_processing:
  "processing (snd (transformAllAndStore_loop env u ps errCh g)) = processing g"
  by (induction env u ps errCh g rule: transformAllAndStore_loop.induct)
     (auto split: sum.splits option.splits simp: Let_def)

lemma HandleDelete_loop_processing:
  "processing (snd (HandleDelete_loop env u ps errCh g)) = processing g"
  by (induction env u ps errCh g rule: HandleDelete_loop.induct)
     (auto split: sum.splits option.splits simp: Let_def)

lemma transformAllAndStore_loop_Cache:
  "Cache (snd (transformAllAndStore_loop env u ps errCh g)) = Cache g"
  by (induction env u ps errCh g rule: transformAllAndStore_loop.induct)
     (auto split: sum.splits option.splits simp: Let_def)

lemma whitelist_loop_iff:
  "whitelist_loop M pats raw allowed \<longleftrightarrow> allowed \<or> (\<exists>pat \<in> set pats. M pat raw)"
  by (induction pats) auto

lemma err_lines_Nil_iff: "err_lines es = [] \<longleftrightarrow> es = []"
  by (cases es) (simp_all add: err_lines_def err_line_def)

lemma err_lines_not_rejection: "err_lines es \<noteq> ''url is being processed''"
  by (cases es) (simp_all add: err_lines_def err_line_def)

lemma S3Backend_loop_errCh:
  "fst (S3Backend_StoreTransformedContent_loop env u ps errCh s) =
     errCh @ List.map_filter (S3Backend_branch_error env u) ps"
  by (induction env u ps errCh s rule: S3Backend_StoreTransformedContent_loop.induct)
     (auto simp: List.map_filter_simps S3Backend_branch_error_def Let_def
           split: sum.splits option.splits)

lemma S3Backend_loop_cache:
  "s3_cache (snd (S3Backend_StoreTransformedContent_loop env u ps errCh s)) = s3_cache s"
  by (induction env u ps errCh s rule: S3Backend_StoreTransformedContent_loop.induct)
     (auto split: sum.splits option.splits simp: Let_def)

lemma S3Backend_loop_bbpool:
  "bbpool (snd (S3Backend_StoreTransformedContent_loop env u ps errCh s)) = bbpool s"
  by (induction env u ps errCh s rule: S3Backend_StoreTransformedContent_loop.induct)
     (auto split: sum.splits option.splits simp: Let_def)

lemma S3Backend_loop_bucket_other:
  "preset \<notin> fst ` set ps \<Longrightarrow>
   s3_bucket (snd (S3Backend_StoreTransformedContent_loop env u ps errCh s))
     (''/'' @ preset @ url_Path u) =
   s3_bucket s (''/'' @ preset @ url_Path u)"
  by (induction env u ps errCh s rule: S3Backend_StoreTransformedContent_loop.induct)
     (auto simp: Let_def split: sum.splits option.splits)

text \<open>A branch that succeeded has its object in the bucket when the loop ends.\<close>

lemma S3Backend_loop_bucket_stored:
  "distinct (map fst ps) \<Longrightarrow> (preset, rule) \<in> set ps \<Longrightarrow>
   Transform env rule (url_String u) = Inr res \<Longrightarrow>
   PutReader env (''/'' @ preset @ url_Path u) res = None \<Longrightarrow>
   s3_bucket (snd (S3Backend_StoreTransformedContent_loop env u ps errCh s))
     (''/'' @ preset @ url_Path u) = Some res"
proof (induction env u ps errCh s rule: S3Backend_StoreTransformedContent_loop.induct)
  case (1 env u errCh s)
  then show ?case by simp
next
  case (2 env u p r rest errCh s)
  show ?case
  proof (cases "(preset, rule) = (p, r)")
    case True
    with "2.prems" have n: "preset \<notin> fst ` set rest" by auto
    show ?thesis
      using True "2.prems"(3,4)
        S3Backend_loop_bucket_other [OF n, of env u errCh
          "s\<lparr>s3_bucket := (s3_bucket s)(''/'' @ preset @ url_Path u \<mapsto> res)\<rparr>"]
      by (simp add: Let_def)
  next
    case False
    with "2.prems" have mem: "(preset, rule) \<in> set rest" and d: "distinct (map fst rest)"
      by auto
    show ?thesis using "2.IH" mem d "2.prems"(3,4)
      by (auto simp: Let_def split: sum.splits option.splits)
  qed
qed

lemma Backend_branch_cache:
  "fs_cache (snd (Backend_StoreTransformedContent_branch env u preset rule f)) = fs_cache f"
  by (auto simp: Backend_StoreTransformedContent_branch_def Let_def
      split: sum.splits option.splits prod.splits)

lemma Backend_loop_cache:
  "fs_cache (snd (Backend_StoreTransformedContent_loop env u ps kept f)) = fs_cache f"
proof (induction env u ps kept f rule: Backend_StoreTransformedContent_loop.induct)
  case (1 env u kept f)
  show ?case by simp
next
  case (2 env u preset rule rest kept f)
  obtain e f' where b: "Backend_StoreTransformedContent_branch env u preset rule f = (e, f')"
    by (cases "Backend_StoreTransformedContent_branch env u preset rule f")
  have "fs_cache f' = fs_cache f"
    using Backend_branch_cache [of env u preset rule f] b by simp
  with 2 b show ?case by simp
qed

text \<open>\<^verbatim>\<open>grp.Wait()\<close> returns the first of the errors the branches report, if any.\<close>

lemma Backend_loop_kept:
  "fst (Backend_StoreTransformedContent_loop env u ps kept f) =
     (case kept of Some k \<Rightarrow> Some k
      | None \<Rightarrow> (case Backend_branch_errors env u ps f of [] \<Rightarrow> None | e # es \<Rightarrow> Some e))"
proof (induction env u ps kept f rule: Backend_StoreTransformedContent_loop.induct)
  case (1 env u kept f)
  show ?case by (simp split: option.splits)
next
  case (2 env u preset rule rest kept f)
  obtain e f' where b: "Backend_StoreTransformedContent_branch env u preset rule f = (e, f')"
    by (cases "Backend_StoreTransformedContent_branch env u preset rule f")
  show ?case using "2.IH" [OF b [symmetric]] b
    by (simp add: errOnce_def split: option.splits list.splits)
qed

lemma Backend_loop_state:
  "snd (Backend_StoreTransformedContent_loop env u ps kept f) =
     foldl (\<lambda>f' pr. snd (Backend_StoreTransformedContent_branch env u (fst pr) (snd pr) f')) f ps"
proof (induction env u ps kept f rule: Backend_StoreTransformedContent_loop.induct)
  case (1 env u kept f)
  show ?case by simp
next
  case (2 env u preset rule rest kept f)
  obtain e f' where b: "Backend_StoreTransformedContent_branch env u preset rule f = (e, f')"
    by (cases "Backend_StoreTransformedContent_branch env u preset rule f")
  show ?case using "2.IH" [OF b [symmetric]] b by simp
qed






section \<open>The claims\<close>

text \<open>
  C1. The claim: \<open>MarkProcessing\<close> returns true if and only if the URL is not already
  marked in flight, so that of two overlapping PUT or DELETE requests for one URL only
  one is admitted. The code marks the URL and returns true whatever the in-flight set
  holds: acquiring a URL a second time, while the first mark is still in place, returns
  true again, and neither handler ever answers with the rejection, whatever the
  in-flight set holds when the request arrives.
\<close>

theorem MarkProcessing_second_acquire:
  "processing (snd (MarkProcessing env g u)) (Sum64 env (url_String u)) = Some True \<and>
   fst (MarkProcessing env (snd (MarkProcessing env g u)) u) = True \<and>
   fst (HandleStore env g r) \<noteq> [HttpError ''url is being processed'' 500] \<and>
   fst (HandleDelete env g r) \<noteq> [HttpError ''url is being processed'' 500]"
  by (simp add: MarkProcessing_def HandleStore_def HandleDelete_def Let_def case_prod_unfold
      err_lines_not_rejection split: sum.splits)

text \<open>
  C2, as the claim states it, fails: when the HEAD request of the object-store backend
  returns an error, the handler answers 302 to the source URL and starts no
  materialization.
\<close>

theorem S3Backend_Serve_head_error_counterexample:
  "S3Backend_Serve (env0\<lparr>Head := (\<lambda>url. Inl ''dial tcp: i/o timeout'')\<rparr>) s0 r0 =
     ([AddHeader ''Location'' ''http://x/a.jpg'', WriteHeader 302], [], s0)"
  by (simp add: S3Backend_Serve_def env0_def s0_def r0_def u0_def MakeCacheKey0_def
      Lookup_def Let_def)

text \<open>
  C2, amended. On a cache miss: when the HEAD request of the object-store backend
  returns a status other than 200, or the \<^verbatim>\<open>os.Stat\<close> of the filesystem backend fails,
  the handler writes a 302 whose Location is the source URL and starts
  \<open>StoreTransformedContent\<close> for the URL in a goroutine, whatever the state of the
  backend (no in-flight set is consulted); when the HEAD request itself returns an
  error, the handler writes the same 302 and starts nothing.
\<close>

theorem Serve_probe_failure:
  assumes "GetTargetURL env r = Inr u" and "GetPresetFromRequest env r = Inr preset"
  shows "(Lookup (s3_cache s) (MakeCacheKey env [''s3'', preset, url_String u]) = [] \<longrightarrow>
           (\<forall>code. Head env (''http://'' @ bucketName s @ ''.s3.amazonaws.com/'' @ preset @ url_Path u) = Inr code \<and>
                   code \<noteq> 200 \<longrightarrow>
              S3Backend_Serve env s r =
                ([AddHeader ''Location'' (url_String u), WriteHeader 302],
                 [StoreTransformedContentTask u], s)) \<and>
           (\<forall>e. Head env (''http://'' @ bucketName s @ ''.s3.amazonaws.com/'' @ preset @ url_Path u) = Inl e \<longrightarrow>
              S3Backend_Serve env s r =
                ([AddHeader ''Location'' (url_String u), WriteHeader 302], [], s))) \<and>
         (Lookup (fs_cache f) (MakeCacheKey env [''fs'', preset, url_String u]) = [] \<and>
          \<not> os_Stat env (disk f) (EncodeFilename env f preset (url_String u)) \<longrightarrow>
            Backend_Serve env f r =
              ([AddHeader ''Location'' (url_String u), WriteHeader 302],
               [StoreTransformedContentTask u], f))"
  using assms by (simp add: S3Backend_Serve_def Backend_Serve_def Let_def)

theorem Serve_probe_failure_witness:
  "S3Backend_Serve env0 s0 r0 =
     ([AddHeader ''Location'' ''http://x/a.jpg'', WriteHeader 302],
      [StoreTransformedContentTask u0], s0) \<and>
   S3Backend_Serve (env0\<lparr>Head := (\<lambda>url. Inl ''timeout'')\<rparr>) s0 r0 =
     ([AddHeader ''Location'' ''http://x/a.jpg'', WriteHeader 302], [], s0) \<and>
   Backend_Serve env0 f0 r0 =
     ([AddHeader ''Location'' ''http://x/a.jpg'', WriteHeader 302],
      [StoreTransformedContentTask u0], f0)"
  using Serve_probe_failure [of env0 r0 u0 "''thumb''" s0 f0]
    Serve_probe_failure [of "env0\<lparr>Head := (\<lambda>url. Inl ''timeout'')\<rparr>" r0 u0 "''thumb''" s0 f0]
  by (simp add: env0_def s0_def f0_def r0_def u0_def MakeCacheKey0_def Lookup_def os_Stat_def)

text \<open>
  C3, as the claim states it, fails on the filesystem backend: with two presets whose
  transformations both fail, the error returned names the first failure only; the
  second branch ran and failed too.
\<close>

theorem Backend_StoreTransformedContent_first_error_counterexample:
  "fst (Backend_StoreTransformedContent
          (env0\<lparr>Transform := (\<lambda>rule urlstr. Inl (''cannot apply '' @ rule))\<rparr>) f0 u0) =
     Some ''failed to transform: cannot apply 100x100'' \<and>
   Backend_branch_errors
     (env0\<lparr>Transform := (\<lambda>rule urlstr. Inl (''cannot apply '' @ rule))\<rparr>) u0 (fs_presets f0) f0 =
     [''failed to transform: cannot apply 100x100'', ''failed to transform: cannot apply 800x600'']"
  by (simp add: Backend_StoreTransformedContent_def Backend_StoreTransformedContent_branch_def
      errOnce_def env0_def f0_def u0_def)

text \<open>
  C3, amended. \<open>StoreTransformedContent\<close> runs one branch per preset and a failed
  branch stops no other. The object-store backend whose buffer pool is set returns no
  error when no branch failed, and otherwise one error that holds one \<open>Err:\<close> line for
  every failed branch; with the pool \<^verbatim>\<open>nil\<close>, as \<^verbatim>\<open>NewBackend\<close> leaves it, the call
  panics instead of returning; whatever the pool, every branch that succeeded has put
  its object. The filesystem backend returns no error when no branch failed, and
  otherwise the error of the first branch that reported one, alone; its final state is
  that of running every branch.
\<close>

theorem StoreTransformedContent_errors:
  assumes "distinct (map fst (s3_presets s))"
  shows "(bbpool s \<noteq> None \<longrightarrow>
           fst (S3Backend_StoreTransformedContent env s u) =
             Returns
               (if List.map_filter (S3Backend_branch_error env u) (s3_presets s) = [] then None
                else Some (''error while transforming: '' @
                           err_lines (List.map_filter (S3Backend_branch_error env u) (s3_presets s))))) \<and>
         (bbpool s = None \<longrightarrow> fst (S3Backend_StoreTransformedContent env s u) = Panics) \<and>
         (\<forall>pr \<in> set (s3_presets s). \<forall>res.
            Transform env (snd pr) (url_String u) = Inr res \<and>
            PutReader env (''/'' @ fst pr @ url_Path u) res = None \<longrightarrow>
            s3_bucket (snd (S3Backend_StoreTransformedContent env s u))
              (''/'' @ fst pr @ url_Path u) = Some res) \<and>
         fst (Backend_StoreTransformedContent env f u) =
           (case Backend_branch_errors env u (fs_presets f) f of [] \<Rightarrow> None | e # es \<Rightarrow> Some e) \<and>
         snd (snd (Backend_StoreTransformedContent env f u)) =
           foldl (\<lambda>f' pr. snd (Backend_StoreTransformedContent_branch env u (fst pr) (snd pr) f'))
             f (fs_presets f)"
proof -
  let ?L = "S3Backend_StoreTransformedContent_loop env u (s3_presets s) [] s"
  have e: "fst ?L = List.map_filter (S3Backend_branch_error env u) (s3_presets s)"
    by (simp add: S3Backend_loop_errCh)
  have pool: "bbpool (snd ?L) = bbpool s"
    by (simp add: S3Backend_loop_bbpool)
  have a: "bbpool s \<noteq> None \<longrightarrow>
           fst (S3Backend_StoreTransformedContent env s u) =
             Returns
               (if List.map_filter (S3Backend_branch_error env u) (s3_presets s) = [] then None
                else Some (''error while transforming: '' @
                           err_lines (List.map_filter (S3Backend_branch_error env u) (s3_presets s))))"
    using e pool
    by (auto simp: S3Backend_StoreTransformedContent_def Let_def case_prod_unfold err_lines_Nil_iff
             split: option.splits)
  have n: "bbpool s = None \<longrightarrow> fst (S3Backend_StoreTransformedContent env s u) = Panics"
    using pool by (simp add: S3Backend_StoreTransformedContent_def case_prod_unfold)
  have st: "snd (S3Backend_StoreTransformedContent env s u) = snd ?L"
    by (simp add: S3Backend_StoreTransformedContent_def Let_def case_prod_unfold
        split: option.splits)
  have b: "\<forall>pr \<in> set (s3_presets s). \<forall>res.
            Transform env (snd pr) (url_String u) = Inr res \<and>
            PutReader env (''/'' @ fst pr @ url_Path u) res = None \<longrightarrow>
            s3_bucket (snd (S3Backend_StoreTransformedContent env s u))
              (''/'' @ fst pr @ url_Path u) = Some res"
  proof (intro ballI allI impI)
    fix pr res
    assume m: "pr \<in> set (s3_presets s)"
      and h: "Transform env (snd pr) (url_String u) = Inr res \<and>
              PutReader env (''/'' @ fst pr @ url_Path u) res = None"
    from m have m': "(fst pr, snd pr) \<in> set (s3_presets s)" by simp
    show "s3_bucket (snd (S3Backend_StoreTransformedContent env s u))
            (''/'' @ fst pr @ url_Path u) = Some res"
      using S3Backend_loop_bucket_stored [OF assms m', of env u res "[]" s] h st by simp
  qed
  have c: "fst (Backend_StoreTransformedContent env f u) =
           (case Backend_branch_errors env u (fs_presets f) f of [] \<Rightarrow> None | e # es \<Rightarrow> Some e)"
    using Backend_loop_kept [of env u "fs_presets f" None f]
    by (simp add: Backend_StoreTransformedContent_def case_prod_unfold)
  have d: "snd (snd (Backend_StoreTransformedContent env f u)) =
           foldl (\<lambda>f' pr. snd (Backend_StoreTransformedContent_branch env u (fst pr) (snd pr) f'))
             f (fs_presets f)"
    using Backend_loop_state [of env u "fs_presets f" None f]
    by (simp add: Backend_StoreTransformedContent_def case_prod_unfold)
  from a n b c d show ?thesis by blast
qed

theorem StoreTransformedContent_errors_witness:
  "fst (S3Backend_StoreTransformedContent
          (env0\<lparr>Transform := (\<lambda>rule urlstr. Inl (''cannot apply '' @ rule))\<rparr>)
          (s0\<lparr>s3_presets := [(''thumb'', ''100x100''), (''large'', ''800x600'')]\<rparr>) u0) =
     Returns (Some (''error while transforming: '' @
                    err_lines [''cannot apply 100x100'', ''cannot apply 800x600''])) \<and>
   fst (S3Backend_StoreTransformedContent env0 s0 u0) = Returns None \<and>
   fst (S3Backend_StoreTransformedContent env0 (s0\<lparr>bbpool := None\<rparr>) u0) = Panics \<and>
   s3_bucket (snd (S3Backend_StoreTransformedContent env0 (s0\<lparr>bbpool := None\<rparr>) u0))
     ''/thumb/a.jpg'' =
     Some \<lparr>Content = ''100x100 http://x/a.jpg'', Size = 22, ContentType = ''image/jpeg''\<rparr> \<and>
   s3_bucket (snd (S3Backend_StoreTransformedContent env0 s0 u0)) ''/thumb/a.jpg'' =
     Some \<lparr>Content = ''100x100 http://x/a.jpg'', Size = 22, ContentType = ''image/jpeg''\<rparr> \<and>
   fst (Backend_StoreTransformedContent env0 f0 u0) = None"
  using StoreTransformedContent_errors
      [of "s0\<lparr>bbpool := None\<rparr>" env0 u0 f0]
    StoreTransformedContent_errors
      [of "s0\<lparr>s3_presets := [(''thumb'', ''100x100''), (''large'', ''800x600'')]\<rparr>"
          "env0\<lparr>Transform := (\<lambda>rule urlstr. Inl (''cannot apply '' @ rule))\<rparr>" u0 f0]
    StoreTransformedContent_errors [of s0 env0 u0 f0]
  by (simp add: env0_def s0_def f0_def u0_def S3Backend_branch_error_def List.map_filter_simps
      Backend_StoreTransformedContent_branch_def os_Stat_def os_MkdirAll_def os_OpenFile_def
      io_Copy_def EncodeFilename_def Dir0_def Let_def)

text \<open>
  C4. The claim: after \<open>Delete\<close>, the cache entry of every preset is gone, whether or
  not the storage remove succeeded. The filesystem backend returns from the branch when
  \<^verbatim>\<open>os.Remove\<close> fails, before the cache is touched: with the derivative file absent,
  \<open>Delete\<close> reports the failure and the cache entry is still there.
\<close>

theorem Backend_Delete_failed_remove_keeps_cache:
  "Backend_Delete env0
     (f0\<lparr>fs_presets := [(''thumb'', ''100x100'')],
        fs_cache := [MakeCacheKey env0 [''fs'', ''thumb'', ''http://x/a.jpg''] \<mapsto> ''/data/thumb/a.jpg'']\<rparr>) u0 =
   (Some (''deleting from file system: failed to remove path /data/thumb/a.jpg: '' @
          ''remove /data/thumb/a.jpg: no such file or directory''),
    f0\<lparr>fs_presets := [(''thumb'', ''100x100'')],
       fs_cache := [MakeCacheKey env0 [''fs'', ''thumb'', ''http://x/a.jpg''] \<mapsto> ''/data/thumb/a.jpg'']\<rparr>)"
  by (simp add: Backend_Delete_def Backend_Delete_branch_def os_Remove_def EncodeFilename_def
      errOnce_def env0_def f0_def u0_def Let_def)

text \<open>
  C5. The claim: the key computed when serving equals the key computed when
  invalidating. The object-store backend serves under
  \<^verbatim>\<open>MakeCacheKey("s3", preset, url)\<close> and deletes \<^verbatim>\<open>MakeCacheKey(preset, url)\<close>: the entry
  that \<open>Serve\<close> has set after a successful probe is still found after a \<open>Delete\<close> of the
  same URL that reported no error. With the buffer pool left \<^verbatim>\<open>nil\<close>, \<open>Delete\<close> panics
  after its fan-out, and the entry is still found as well.
\<close>

theorem S3Backend_Delete_misses_Serve_key:
  "fst (snd (S3Backend_Serve (env0\<lparr>Head := (\<lambda>url. Inr 200)\<rparr>) s0 r0)) =
     [CacheSetTask [''s3'', ''thumb'', ''http://x/a.jpg''] ''http://bkt.s3.amazonaws.com/thumb/a.jpg''] \<and>
   fst (S3Backend_Delete env0
     (S3Backend_run env0 s0
        (CacheSetTask [''s3'', ''thumb'', ''http://x/a.jpg''] ''http://bkt.s3.amazonaws.com/thumb/a.jpg''))
     u0) = Returns None \<and>
   Lookup (s3_cache (snd (S3Backend_Delete env0
     (S3Backend_run env0 s0
        (CacheSetTask [''s3'', ''thumb'', ''http://x/a.jpg''] ''http://bkt.s3.amazonaws.com/thumb/a.jpg''))
     u0)))
     (MakeCacheKey env0 [''s3'', ''thumb'', ''http://x/a.jpg'']) =
     ''http://bkt.s3.amazonaws.com/thumb/a.jpg'' \<and>
   fst (S3Backend_Delete env0
     (S3Backend_run env0 (s0\<lparr>bbpool := None\<rparr>)
        (CacheSetTask [''s3'', ''thumb'', ''http://x/a.jpg''] ''http://bkt.s3.amazonaws.com/thumb/a.jpg''))
     u0) = Panics \<and>
   Lookup (s3_cache (snd (S3Backend_Delete env0
     (S3Backend_run env0 (s0\<lparr>bbpool := None\<rparr>)
        (CacheSetTask [''s3'', ''thumb'', ''http://x/a.jpg''] ''http://bkt.s3.amazonaws.com/thumb/a.jpg''))
     u0)))
     (MakeCacheKey env0 [''s3'', ''thumb'', ''http://x/a.jpg'']) =
     ''http://bkt.s3.amazonaws.com/thumb/a.jpg''"
  by (simp add: S3Backend_Serve_def S3Backend_Delete_def env0_def s0_def r0_def u0_def
      MakeCacheKey0_def Lookup_def CacheSet_def CacheDelete_def err_lines_def Let_def)

text \<open>
  C6, as the claim states it, fails: a \<open>StoreTransformedContent\<close> whose only preset is
  transformed and stored without error leaves no cache entry for that preset.
\<close>

theorem StoreTransformedContent_no_upsert_counterexample:
  "fst (S3Backend_StoreTransformedContent env0 s0 u0) = Returns None \<and>
   s3_bucket (snd (S3Backend_StoreTransformedContent env0 s0 u0)) ''/thumb/a.jpg'' =
     Some \<lparr>Content = ''100x100 http://x/a.jpg'', Size = 22, ContentType = ''image/jpeg''\<rparr> \<and>
   s3_cache (snd (S3Backend_StoreTransformedContent env0 s0 u0))
     (MakeCacheKey env0 [''s3'', ''thumb'', ''http://x/a.jpg'']) = None"
  by (simp add: S3Backend_StoreTransformedContent_def env0_def s0_def u0_def err_lines_def Let_def)

text \<open>
  C6, amended. A materialization writes no cache entry: the cache is the same after
  \<open>StoreTransformedContent\<close> (either backend) and after the guardian's
  \<open>transformAllAndStore\<close> as before, for every preset and every outcome.
\<close>

theorem StoreTransformedContent_leaves_cache:
  "s3_cache (snd (S3Backend_StoreTransformedContent env s u)) = s3_cache s \<and>
   fs_cache (snd (snd (Backend_StoreTransformedContent env f u))) = fs_cache f \<and>
   Cache (snd (transformAllAndStore env g u)) = Cache g"
proof -
  have a: "s3_cache (snd (S3Backend_StoreTransformedContent env s u)) = s3_cache s"
    using S3Backend_loop_cache [of env u "s3_presets s" "[]" s]
    by (simp add: S3Backend_StoreTransformedContent_def Let_def case_prod_unfold
        split: option.splits)
  have b: "fs_cache (snd (snd (Backend_StoreTransformedContent env f u))) = fs_cache f"
    using Backend_loop_cache [of env u "fs_presets f" None f]
    by (simp add: Backend_StoreTransformedContent_def case_prod_unfold)
  have c: "Cache (snd (transformAllAndStore env g u)) = Cache g"
    by (simp add: transformAllAndStore_def transformAllAndStore_loop_Cache)
  from a b c show ?thesis by simp
qed

text \<open>
  C7, as the claim states it, fails on the filesystem backend: on a cache miss with the
  derivative file present, the handler serves the file (no 301), then also writes the
  302 and starts a materialization.
\<close>

theorem Backend_Serve_probe_hit_counterexample:
  "Backend_Serve env0 (f0\<lparr>disk := [(''/data/thumb/a.jpg'', \<lparr>ModTime = 990, Bytes = ''img''\<rparr>)]\<rparr>) r0 =
     ([ServeFile ''/data/thumb/a.jpg'', AddHeader ''Location'' ''http://x/a.jpg'', WriteHeader 302],
      [StoreTransformedContentTask u0],
      f0\<lparr>disk := [(''/data/thumb/a.jpg'', \<lparr>ModTime = 990, Bytes = ''img''\<rparr>)],
         fs_cache := [[''fs'', ''thumb'', ''http://x/a.jpg''] \<mapsto> ''/data/thumb/a.jpg'']\<rparr>)"
  by (simp add: Backend_Serve_def env0_def f0_def r0_def u0_def MakeCacheKey0_def Lookup_def
      CacheSet_def os_Stat_def EncodeFilename_def Let_def)

text \<open>
  C7, amended. On a cache miss with a successful probe: the object-store backend
  writes a 301 to the derivative's address and nothing more, and starts one goroutine,
  which sets the cache entry (no materialization); the filesystem backend sets the cache
  entry and answers first by serving the derivative file itself.
\<close>

theorem Serve_probe_success:
  assumes "GetTargetURL env r = Inr u" and "GetPresetFromRequest env r = Inr preset"
  shows "(Lookup (s3_cache s) (MakeCacheKey env [''s3'', preset, url_String u]) = [] \<and>
          Head env (''http://'' @ bucketName s @ ''.s3.amazonaws.com/'' @ preset @ url_Path u) = Inr 200 \<longrightarrow>
            S3Backend_Serve env s r =
              ([AddHeader ''Location''
                  (''http://'' @ bucketName s @ ''.s3.amazonaws.com/'' @ preset @ url_Path u),
                WriteHeader 301],
               [CacheSetTask (MakeCacheKey env [''s3'', preset, url_String u])
                  (''http://'' @ bucketName s @ ''.s3.amazonaws.com/'' @ preset @ url_Path u)], s) \<and>
            s3_cache (S3Backend_run env s
               (CacheSetTask (MakeCacheKey env [''s3'', preset, url_String u])
                  (''http://'' @ bucketName s @ ''.s3.amazonaws.com/'' @ preset @ url_Path u)))
              (MakeCacheKey env [''s3'', preset, url_String u]) =
              Some (''http://'' @ bucketName s @ ''.s3.amazonaws.com/'' @ preset @ url_Path u)) \<and>
         (Lookup (fs_cache f) (MakeCacheKey env [''fs'', preset, url_String u]) = [] \<and>
          os_Stat env (disk f) (EncodeFilename env f preset (url_String u)) \<longrightarrow>
            take 1 (fst (Backend_Serve env f r)) =
              [ServeFile (EncodeFilename env f preset (url_String u))] \<and>
            fs_cache (snd (snd (Backend_Serve env f r)))
              (MakeCacheKey env [''fs'', preset, url_String u]) =
              Some (EncodeFilename env f preset (url_String u)))"
  using assms by (simp add: S3Backend_Serve_def Backend_Serve_def Let_def CacheSet_def)

theorem Serve_probe_success_witness:
  "S3Backend_Serve (env0\<lparr>Head := (\<lambda>url. Inr 200)\<rparr>) s0 r0 =
     ([AddHeader ''Location'' ''http://bkt.s3.amazonaws.com/thumb/a.jpg'', WriteHeader 301],
      [CacheSetTask [''s3'', ''thumb'', ''http://x/a.jpg''] ''http://bkt.s3.amazonaws.com/thumb/a.jpg''],
      s0) \<and>
   take 1 (fst (Backend_Serve env0
      (f0\<lparr>disk := [(''/data/thumb/a.jpg'', \<lparr>ModTime = 990, Bytes = ''img''\<rparr>)]\<rparr>) r0)) =
     [ServeFile ''/data/thumb/a.jpg'']"
  using Serve_probe_success [of "env0\<lparr>Head := (\<lambda>url. Inr 200)\<rparr>" r0 u0 "''thumb''" s0 f0]
    Serve_probe_success [of env0 r0 u0 "''thumb''" s0
      "f0\<lparr>disk := [(''/data/thumb/a.jpg'', \<lparr>ModTime = 990, Bytes = ''img''\<rparr>)]\<rparr>"]
  by (simp add: env0_def s0_def f0_def r0_def u0_def MakeCacheKey0_def Lookup_def os_Stat_def
      EncodeFilename_def)

text \<open>
  C8. Every PUT or DELETE that is admitted (its \<open>url\<close> is present and parses; the
  acquire then succeeds) leaves the handler with the URL's mark removed from the
  in-flight set, whether the run reported errors or not; the other marks are untouched.
\<close>

theorem guarded_handlers_release:
  assumes "FormValue r ''url'' \<noteq> []"
    and "Parse env (FormValue r ''url'') = Inr u"
  shows "processing (snd (HandleStore env g r)) =
           (processing g)(Sum64 env (url_String u) := None) \<and>
         processing (snd (HandleDelete env g r)) =
           (processing g)(Sum64 env (url_String u) := None)"
proof -
  let ?g1 = "snd (MarkProcessing env g u)"
  have m: "fst (MarkProcessing env g u) = True"
    by (simp add: MarkProcessing_def Let_def)
  have p1: "processing ?g1 = (processing g)(Sum64 env (url_String u) \<mapsto> True)"
    by (simp add: MarkProcessing_def Let_def)
  have s: "processing (snd (transformAllAndStore env ?g1 u)) = processing ?g1"
    by (simp add: transformAllAndStore_def transformAllAndStore_loop_processing)
  have d: "processing (snd (HandleDelete_loop env u presets [] ?g1)) = processing ?g1"
    by (simp add: HandleDelete_loop_processing)
  have "processing (snd (HandleStore env g r)) =
          (processing g)(Sum64 env (url_String u) := None)"
    using assms m s p1
    by (simp add: HandleStore_def Let_def UnmarkProcessing_def case_prod_unfold)
  moreover have "processing (snd (HandleDelete env g r)) =
          (processing g)(Sum64 env (url_String u) := None)"
    using assms m d p1
    by (simp add: HandleDelete_def Let_def UnmarkProcessing_def case_prod_unfold)
  ultimately show ?thesis by simp
qed

theorem guarded_handlers_release_witness:
  "processing (snd (HandleStore env0 g0 r0)) 14 = None \<and>
   processing (snd (HandleStore env0 g0 r0)) 7 = Some True \<and>
   processing (snd (HandleDelete env0 g0 r0)) 14 = None \<and>
   processing (snd (HandleStore (env0\<lparr>Transform := (\<lambda>rule urlstr. Inl ''boom'')\<rparr>) g0 r0)) 14 = None"
  using guarded_handlers_release [of r0 env0 u0 g0]
    guarded_handlers_release [of r0 "env0\<lparr>Transform := (\<lambda>rule urlstr. Inl ''boom'')\<rparr>" u0 g0]
  by (simp add: env0_def g0_def r0_def u0_def)




text \<open>
  C10. In \<open>HandleFetch\<close>, for a request whose \<open>url\<close> is present: with an empty whitelist
  the request goes to the backend (no 403); with a whitelist that is not empty, a URL
  that no pattern matches is answered 403 and the backend is not called, and a URL that
  some pattern matches goes to the backend.
\<close>

theorem HandleFetch_whitelist:
  assumes "FormValue r ''url'' \<noteq> []"
  shows "(whitelist d = [] \<longrightarrow> HandleFetch M d Serve r = Inr (Serve r)) \<and>
         (whitelist d \<noteq> [] \<and> (\<forall>pat \<in> set (whitelist d). \<not> M pat (FormValue r ''url'')) \<longrightarrow>
            HandleFetch M d Serve r = Inl [HttpError ''Specified url not allowed'' 403]) \<and>
         ((\<exists>pat \<in> set (whitelist d). M pat (FormValue r ''url'')) \<longrightarrow>
            HandleFetch M d Serve r = Inr (Serve r))"
  using assms by (auto simp: HandleFetch_def Let_def whitelist_loop_iff)

theorem HandleFetch_whitelist_witness:
  "HandleFetch prefix_match \<lparr>whitelist = []\<rparr> (S3Backend_Serve env0 s0) r0 =
     Inr (S3Backend_Serve env0 s0 r0) \<and>
   HandleFetch prefix_match \<lparr>whitelist = [''https://cdn/'', ''http://y/'']\<rparr>
     (S3Backend_Serve env0 s0) r0 =
     Inl [HttpError ''Specified url not allowed'' 403] \<and>
   HandleFetch prefix_match \<lparr>whitelist = [''https://cdn/'', ''http://x/'']\<rparr>
     (S3Backend_Serve env0 s0) r0 =
     Inr (S3Backend_Serve env0 s0 r0)"
  using HandleFetch_whitelist [of r0 "\<lparr>whitelist = []\<rparr>" prefix_match "S3Backend_Serve env0 s0"]
    HandleFetch_whitelist [of r0 "\<lparr>whitelist = [''https://cdn/'', ''http://y/'']\<rparr>"
      prefix_match "S3Backend_Serve env0 s0"]
    HandleFetch_whitelist [of r0 "\<lparr>whitelist = [''https://cdn/'', ''http://x/'']\<rparr>"
      prefix_match "S3Backend_Serve env0 s0"]
  by (simp add: r0_def prefix_match_def)

end
